theory Spec2Isabelle
  imports Complex_Main
begin

section \<open>respy.units.quantity: the unit-carrying array\<close>

text \<open>
  A shallow embedding of \<^verbatim>\<open>src/respy/units/quantity.py\<close>. The class \<^verbatim>\<open>Quantity\<close> is a
  numpy array with the attributes \<^verbatim>\<open>unit\<close>, \<^verbatim>\<open>dimension\<close>, \<^verbatim>\<open>value\<close>, \<^verbatim>\<open>_dtype\<close>, \<^verbatim>\<open>name\<close>,
  \<^verbatim>\<open>constant\<close>, \<^verbatim>\<open>copy\<close>, \<^verbatim>\<open>order\<close>, \<^verbatim>\<open>subok\<close>, \<^verbatim>\<open>ndmin\<close> and \<^verbatim>\<open>quantity\<close>; it is a record
  here, with the numbers of the array itself, which no attribute names, as the field
  \<open>buffer\<close>. Every \<^verbatim>\<open>raise\<close> is a value \<open>Inl e\<close>. The double precision numbers of numpy are
  idealised as reals; nothing proved below depends on rounding.
\<close>

subsection \<open>Python values\<close>

datatype error =
    UnitError | DimensionError | ValueError | KeyError | TypeError | AttributeError

text \<open>A symbolic unit expression (a sympy expression over unit symbols).\<close>

datatype sexpr =
    Unit string
  | Mul sexpr sexpr
  | Div sexpr sexpr
  | Pow sexpr int

text \<open>
  What a \<^verbatim>\<open>unit\<close> argument or attribute can hold: \<^verbatim>\<open>None\<close>, the singletons \<^verbatim>\<open>Zero\<close> and
  \<^verbatim>\<open>One\<close> imported from \<^verbatim>\<open>respy.units.util\<close>, a Python integer, a string still to be
  parsed, or a symbolic expression.

  Modelled from the spec: \<^verbatim>\<open>Zero\<close> and \<^verbatim>\<open>One\<close> (\<^verbatim>\<open>respy.units.util\<close> is not part of the
  sources at hand) are the two sentinel singletons of the spec's section 6, two distinct
  objects of two distinct classes, so that \<^verbatim>\<open>isinstance(u, type(One))\<close> holds of
  \<^verbatim>\<open>One\<close> only.
\<close>

datatype pyunit =
    PyNone
  | ZeroU
  | OneU
  | PyInt int
  | PyStr string
  | Sym sexpr

text \<open>The \<^verbatim>\<open>dimension\<close> attribute holds \<^verbatim>\<open>None\<close>, \<^verbatim>\<open>Zero\<close> or a dimension's name.\<close>

datatype pydim = DimNone | DimZero | DimName string

text \<open>
  The dtypes: \<open>Dint\<close> is numpy's default integer, the one dtype for which
  \<^verbatim>\<open>x.dtype == int\<close> holds; \<open>Dint16\<close> stands for the other integer dtypes.
\<close>

datatype np_dtype = Dint | Dint16 | Ddouble | Dbool | Dcomplex

text \<open>
  An array is its dtype and its nested items: \<open>Sc x\<close> is a zero-dimensional array (or a
  numpy scalar), \<open>Ar xs\<close> an array whose first axis runs over \<open>xs\<close>.
\<close>

datatype nd = Sc real | Ar "nd list"

record ndarray =
  nd_dtype :: np_dtype
  nd_data :: nd

record Quantity =
  unit :: pyunit
  dimension :: pydim
  value' :: ndarray
  dtype :: np_dtype
  name :: "string option"
  constant' :: bool
  copy :: bool
  order :: "string option"
  subok :: bool
  ndmin :: nat
  quantity :: "bool option"
  buffer :: ndarray

text \<open>An operand of an operator: a Quantity, or anything else as the array numpy makes of it.\<close>

datatype pyobj = Qty Quantity | Arr ndarray

subsection \<open>The collaborators\<close>

text \<open>
  The functions and tables that \<^verbatim>\<open>quantity.py\<close> imports are parameters of the model:
  \<^item> \<open>get_unit\<close>: \<^verbatim>\<open>respy.unit_base.auxil.get_unit\<close>;
  \<^item> \<open>dimension_name\<close>: the attribute access \<^verbatim>\<open>u.dimension.name\<close> on a value other than
    \<^verbatim>\<open>None\<close>, with \<open>None\<close> for \<^verbatim>\<open>AttributeError\<close>;
  \<^item> \<open>UFUNC_NAME\<close>: the dictionary \<^verbatim>\<open>__UFUNC_NAME__\<close>;
  \<^item> \<open>compute_operation\<close>, \<open>compute_bitwise_operation\<close>:
    \<^verbatim>\<open>respy.unit_base.operations\<close>;
  \<^item> \<open>np_array\<close>: \<^verbatim>\<open>numpy.array\<close> with its arguments \<^verbatim>\<open>dtype, copy, order, subok, ndmin\<close>;
  \<^item> \<open>Units\<close>: the table \<^verbatim>\<open>util.Units\<close> of scale factors, and \<open>str_of\<close>: \<^verbatim>\<open>str\<close> on a unit;
  \<^item> \<open>convert_to_unit\<close>: \<^verbatim>\<open>respy.unit_base.convert.convert_to_unit\<close> applied to the
    expression \<^verbatim>\<open>value * unit\<close>, followed by \<^verbatim>\<open>.base\<close>;
  \<^item> \<open>setitem0\<close>: the numpy assignment \<^verbatim>\<open>value[0] = x\<close>.
\<close>

record env =
  get_unit :: "pyunit \<Rightarrow> error + pyunit"
  dimension_name :: "pyunit \<Rightarrow> string option"
  UFUNC_NAME :: "string \<rightharpoonup> string"
  compute_operation ::
    "Quantity \<Rightarrow> pyobj \<Rightarrow> string \<Rightarrow> bool \<Rightarrow> error + (ndarray \<times> pyunit \<times> np_dtype \<times> string option)"
  compute_bitwise_operation :: "Quantity \<Rightarrow> pyobj \<Rightarrow> string \<Rightarrow> bool \<Rightarrow> error + pyobj"
  np_array ::
    "ndarray \<Rightarrow> np_dtype option \<Rightarrow> bool \<Rightarrow> string option \<Rightarrow> bool \<Rightarrow> nat \<Rightarrow> error + ndarray"
  Units :: "string \<rightharpoonup> (string \<rightharpoonup> real)"
  str_of :: "pyunit \<Rightarrow> string"
  convert_to_unit :: "ndarray \<times> pyunit \<Rightarrow> pyunit \<Rightarrow> error + ndarray"
  setitem0 :: "ndarray \<Rightarrow> ndarray \<Rightarrow> error + ndarray"

subsection \<open>Arrays\<close>

fun atleast_1d_nd :: "nd \<Rightarrow> nd" where
  "atleast_1d_nd (Sc x) = Ar [Sc x]"
| "atleast_1d_nd (Ar xs) = Ar xs"

definition atleast_1d :: "ndarray \<Rightarrow> ndarray" where
  "atleast_1d a = a\<lparr>nd_data := atleast_1d_nd (nd_data a)\<rparr>"

fun map_nd :: "(real \<Rightarrow> real) \<Rightarrow> nd \<Rightarrow> nd" where
  "map_nd f (Sc x) = Sc (f x)"
| "map_nd f (Ar xs) = Ar (map (map_nd f) xs)"

text \<open>
  A number under a dtype: an integer dtype drops the fraction, towards zero, and the
  16-bit one wraps around at its width; the boolean dtype keeps whether the number is
  zero. Numbers beyond the range of the default integer are not within the model.
\<close>

definition toward_zero :: "real \<Rightarrow> int" where
  "toward_zero x = (if 0 \<le> x then \<lfloor>x\<rfloor> else \<lceil>x\<rceil>)"

definition wrap :: "nat \<Rightarrow> int \<Rightarrow> int" where
  "wrap w n = (n + 2 ^ (w - 1)) mod 2 ^ w - 2 ^ (w - 1)"

fun cast :: "np_dtype \<Rightarrow> real \<Rightarrow> real" where
  "cast Dint x = of_int (toward_zero x)"
| "cast Dint16 x = of_int (wrap 16 (toward_zero x))"
| "cast Dbool x = (if x = 0 then 0 else 1)"
| "cast Ddouble x = x"
| "cast Dcomplex x = x"

text \<open>\<^verbatim>\<open>x.astype(t)\<close>.\<close>

definition astype :: "ndarray \<Rightarrow> np_dtype \<Rightarrow> ndarray" where
  "astype a t = \<lparr>nd_dtype = t, nd_data = map_nd (cast t) (nd_data a)\<rparr>"

subsection \<open>Attributes\<close>

definition isinstance_One :: "pyunit \<Rightarrow> bool" where
  "isinstance_One u = (u = OneU)"

text \<open>
  \<^verbatim>\<open>u.dimension.name\<close> under \<^verbatim>\<open>try ... except AttributeError\<close>: \<^verbatim>\<open>None\<close>, an integer and a
  string have no attribute \<^verbatim>\<open>dimension\<close>.
\<close>

definition dimension_of :: "env \<Rightarrow> pyunit \<Rightarrow> string option" where
  "dimension_of E u =
     (case u of
        PyNone \<Rightarrow> None
      | PyInt i \<Rightarrow> None
      | PyStr s \<Rightarrow> None
      | _ \<Rightarrow> dimension_name E u)"

text \<open>
  The methods that assign attributes of \<^verbatim>\<open>self\<close> return the object as they leave it,
  together with the exception raised, if any.
\<close>

definition set_name :: "string option \<Rightarrow> Quantity \<Rightarrow> Quantity" where
  "set_name n self = self\<lparr>name := n\<rparr>"

definition set_attributes ::
  "env \<Rightarrow> pyunit \<Rightarrow> ndarray \<Rightarrow> np_dtype \<Rightarrow> bool \<Rightarrow> string option \<Rightarrow> bool \<Rightarrow> bool \<Rightarrow> nat
     \<Rightarrow> Quantity \<Rightarrow> error option \<times> Quantity" where
  "set_attributes E unit_arg value_arg dtype_arg copy_arg order_arg subok_arg constant_arg
       ndmin_arg self =
     (case (if unit_arg = PyNone \<or> isinstance_One unit_arg then Inr PyNone
            else get_unit E unit_arg) of
        Inl e \<Rightarrow> (Some e, self)
      | Inr u \<Rightarrow>
          (let self = self\<lparr>unit := u\<rparr>;
               self = self\<lparr>value' := value_arg\<rparr>;
               self = self\<lparr>dtype := dtype_arg\<rparr>;
               self = self\<lparr>copy := copy_arg\<rparr>;
               self = self\<lparr>order := order_arg\<rparr>;
               self = self\<lparr>subok := subok_arg\<rparr>;
               self = self\<lparr>constant' := constant_arg\<rparr>;
               self = self\<lparr>ndmin := ndmin_arg\<rparr>;
               self = self\<lparr>dimension :=
                 (case dimension_of E (unit self) of
                    Some d \<Rightarrow> DimName d
                  | None \<Rightarrow> DimNone)\<rparr>
           in (None, self)))"

text \<open>
  \<^verbatim>\<open>value.view(cls)\<close> of a plain array: \<^verbatim>\<open>__array_finalize__\<close> finds none of the
  attributes on it and sets every one to \<^verbatim>\<open>None\<close> (written \<open>False\<close> and \<open>0\<close> in the
  fields that hold a truth value or a number). The callers below overwrite all of them
  but \<^verbatim>\<open>quantity\<close>. The numbers of the view itself are those of the array.
\<close>

definition view :: "ndarray \<Rightarrow> Quantity" where
  "view a =
     \<lparr>unit = PyNone, dimension = DimNone, value' = a, dtype = nd_dtype a, name = None,
      constant' = False, copy = False, order = None, subok = False, ndmin = 0,
      quantity = None, buffer = a\<rparr>"

definition create_new_instance ::
  "env \<Rightarrow> Quantity \<Rightarrow> ndarray \<Rightarrow> pyunit \<Rightarrow> string option \<Rightarrow> np_dtype option
     \<Rightarrow> error + Quantity" where
  "create_new_instance E self value_arg unit_arg name_arg dtype_arg =
     (let unit_arg =
            (if unit_arg = PyNone \<or> unit_arg = PyInt 1 then PyNone
             else if isinstance_One unit_arg then PyNone
             else unit_arg);
          dtype_arg = (case dtype_arg of None \<Rightarrow> dtype self | Some t \<Rightarrow> t)
      in case np_array E value_arg (Some dtype_arg) False (order self) (subok self) 0 of
           Inl e \<Rightarrow> Inl e
         | Inr a \<Rightarrow>
             (let a = atleast_1d a
              in case set_attributes E unit_arg a dtype_arg (copy self) (order self)
                        (subok self) (constant' self) (ndmin self) (view a) of
                   (Some e, v) \<Rightarrow> Inl e
                 | (None, v) \<Rightarrow> Inr (set_name name_arg v)))"

text \<open>\<^verbatim>\<open>Quantity.__new__\<close>.\<close>

definition new ::
  "env \<Rightarrow> ndarray \<Rightarrow> pyunit \<Rightarrow> np_dtype option \<Rightarrow> bool \<Rightarrow> string option \<Rightarrow> bool \<Rightarrow> nat
     \<Rightarrow> string option \<Rightarrow> bool \<Rightarrow> error + Quantity" where
  "new E value_arg unit_arg dtype_arg copy_arg order_arg subok_arg ndmin_arg name_arg
       constant_arg =
     (case np_array E value_arg dtype_arg copy_arg order_arg subok_arg ndmin_arg of
        Inl e \<Rightarrow> Inl e
      | Inr x \<Rightarrow>
          (let x = atleast_1d x;
               x = (if nd_dtype x = Dint then astype x Ddouble else x);
               obj = view x
           in case (if unit_arg = PyNone
                    then Inr (obj\<lparr>unit := ZeroU, dimension := DimZero\<rparr>)
                    else case get_unit E unit_arg of
                           Inl e \<Rightarrow> Inl e
                         | Inr u \<Rightarrow>
                             Inr (obj\<lparr>unit := u,
                                      dimension :=
                                        (case dimension_of E u of
                                           Some d \<Rightarrow> DimName d
                                         | None \<Rightarrow> DimZero)\<rparr>)) of
                Inl e \<Rightarrow> Inl e
              | Inr obj \<Rightarrow>
                  Inr (obj\<lparr>value' := x, dtype := nd_dtype x,
                           name := (case name_arg of None \<Rightarrow> Some [] | Some n \<Rightarrow> Some n),
                           constant' := constant_arg, copy := copy_arg, order := order_arg,
                           subok := subok_arg, ndmin := ndmin_arg,
                           quantity := Some True\<rparr>)))"

subsection \<open>Arithmetic operators\<close>

text \<open>\<^verbatim>\<open>__check_other\<close>: an operand without the attribute \<^verbatim>\<open>quantity\<close> becomes an array.\<close>

definition check_other :: "pyobj \<Rightarrow> pyobj" where
  "check_other other = (case other of Qty q \<Rightarrow> Qty q | Arr a \<Rightarrow> Arr (atleast_1d a))"

text \<open>
  The body that \<^verbatim>\<open>__mul__\<close>, \<^verbatim>\<open>__truediv__\<close>, \<^verbatim>\<open>__floordiv__\<close>, \<^verbatim>\<open>__mod__\<close>, \<^verbatim>\<open>__add__\<close>,
  \<^verbatim>\<open>__sub__\<close>, \<^verbatim>\<open>__pow__\<close>, \<^verbatim>\<open>__rtruediv__\<close> and \<^verbatim>\<open>__rsub__\<close> repeat word for word, with
  the name of the method (\<^verbatim>\<open>inspect.currentframe().f_code.co_name\<close>) and the flag
  \<^verbatim>\<open>right_handed\<close> as the only differences.
\<close>

definition wrapped_operation ::
  "env \<Rightarrow> string \<Rightarrow> bool \<Rightarrow> Quantity \<Rightarrow> pyobj \<Rightarrow> error + Quantity" where
  "wrapped_operation E co_name right_handed self other =
     (let other = check_other other
      in case UFUNC_NAME E co_name of
           None \<Rightarrow> Inl KeyError
         | Some operator \<Rightarrow>
             (case compute_operation E self other operator right_handed of
                Inl e \<Rightarrow> Inl e
              | Inr (v, u, t, n) \<Rightarrow>
                  (let u = (if u = PyNone then ZeroU else u)
                   in create_new_instance E self v u n (Some t))))"



definition q_floordiv :: "env \<Rightarrow> Quantity \<Rightarrow> pyobj \<Rightarrow> error + Quantity" where
  "q_floordiv E self other = wrapped_operation E ''__floordiv__'' False self other"

definition q_mod :: "env \<Rightarrow> Quantity \<Rightarrow> pyobj \<Rightarrow> error + Quantity" where
  "q_mod E self other = wrapped_operation E ''__mod__'' False self other"

definition q_add :: "env \<Rightarrow> Quantity \<Rightarrow> pyobj \<Rightarrow> error + Quantity" where
  "q_add E self other = wrapped_operation E ''__add__'' False self other"

definition q_sub :: "env \<Rightarrow> Quantity \<Rightarrow> pyobj \<Rightarrow> error + Quantity" where
  "q_sub E self other = wrapped_operation E ''__sub__'' False self other"

definition q_pow :: "env \<Rightarrow> Quantity \<Rightarrow> pyobj \<Rightarrow> error + Quantity" where
  "q_pow E self other = wrapped_operation E ''__pow__'' False self other"

definition q_rtruediv :: "env \<Rightarrow> Quantity \<Rightarrow> pyobj \<Rightarrow> error + Quantity" where
  "q_rtruediv E self other = wrapped_operation E ''__rtruediv__'' True self other"

definition q_rsub :: "env \<Rightarrow> Quantity \<Rightarrow> pyobj \<Rightarrow> error + Quantity" where
  "q_rsub E self other = wrapped_operation E ''__rsub__'' True self other"

text \<open>
  \<^verbatim>\<open>__rmul__\<close> and \<^verbatim>\<open>__radd__\<close> are \<^verbatim>\<open>__mul__\<close> and \<^verbatim>\<open>__add__\<close> themselves, and the
  augmented assignments are the left operators.
  \<^verbatim>\<open>__rfloordiv__\<close> has the same body without the test \<^verbatim>\<open>if unit is None\<close>.
\<close>

definition q_rfloordiv :: "env \<Rightarrow> Quantity \<Rightarrow> pyobj \<Rightarrow> error + Quantity" where
  "q_rfloordiv E self other =
     (let other = check_other other
      in case UFUNC_NAME E ''__rfloordiv__'' of
           None \<Rightarrow> Inl KeyError
         | Some operator \<Rightarrow>
             (case compute_operation E self other operator True of
                Inl e \<Rightarrow> Inl e
              | Inr (v, u, t, n) \<Rightarrow> create_new_instance E self v u n (Some t)))"

text \<open>
  \<^verbatim>\<open>__rmod__\<close> and \<^verbatim>\<open>__rpow__\<close> have the body of the bitwise operators: what
  \<^verbatim>\<open>compute_bitwise_operation\<close> returns is returned as it is.
\<close>

definition bitwise_operation ::
  "env \<Rightarrow> string \<Rightarrow> bool \<Rightarrow> Quantity \<Rightarrow> pyobj \<Rightarrow> error + pyobj" where
  "bitwise_operation E co_name right_handed self other =
     (let other = check_other other
      in case UFUNC_NAME E co_name of
           None \<Rightarrow> Inl KeyError
         | Some operator \<Rightarrow> compute_bitwise_operation E self other operator right_handed)"

definition q_rmod :: "env \<Rightarrow> Quantity \<Rightarrow> pyobj \<Rightarrow> error + pyobj" where
  "q_rmod E self other = bitwise_operation E ''__rmod__'' True self other"

definition q_rpow :: "env \<Rightarrow> Quantity \<Rightarrow> pyobj \<Rightarrow> error + pyobj" where
  "q_rpow E self other = bitwise_operation E ''__rpow__'' True self other"

subsection \<open>Conversion\<close>

fun leaves :: "nd \<Rightarrow> real list" where
  "leaves (Sc x) = [x]"
| "leaves (Ar xs) = concat (map leaves xs)"

fun shape :: "nd \<Rightarrow> nat list" where
  "shape (Sc x) = []"
| "shape (Ar []) = [0]"
| "shape (Ar (x # xs)) = Suc (length xs) # shape x"

text \<open>\<^verbatim>\<open>len(a)\<close> raises \<^verbatim>\<open>TypeError\<close> on a zero-dimensional array.\<close>

fun len :: "nd \<Rightarrow> error + nat" where
  "len (Sc x) = Inl TypeError"
| "len (Ar xs) = Inr (length xs)"

definition flatten :: "ndarray \<Rightarrow> ndarray" where
  "flatten a = a\<lparr>nd_data := Ar (map Sc (leaves (nd_data a)))\<rparr>"

fun build :: "nat list \<Rightarrow> real list \<Rightarrow> nd" where
  "build [] xs = (case xs of [] \<Rightarrow> Sc 0 | x # _ \<Rightarrow> Sc x)"
| "build (n # ns) xs =
     Ar (map (\<lambda>i. build ns (take (prod_list ns) (drop (i * prod_list ns) xs))) [0..<n])"

text \<open>\<^verbatim>\<open>a.reshape(shape)\<close> raises \<^verbatim>\<open>ValueError\<close> when the sizes differ.\<close>

definition reshape :: "ndarray \<Rightarrow> nat list \<Rightarrow> error + ndarray" where
  "reshape a shp =
     (if prod_list shp = length (leaves (nd_data a))
      then Inr (a\<lparr>nd_data := build shp (leaves (nd_data a))\<rparr>)
      else Inl ValueError)"

definition zeros_like :: "ndarray \<Rightarrow> np_dtype \<Rightarrow> ndarray" where
  "zeros_like a t = \<lparr>nd_dtype = t, nd_data = map_nd (\<lambda>x. 0) (nd_data a)\<rparr>"

text \<open>
  An array times or over a Python float: a complex array stays complex, any other is
  double. A scale factor of zero, which numpy answers with \<^verbatim>\<open>inf\<close> or \<^verbatim>\<open>nan\<close>, is not
  within the idealisation.
\<close>

definition scale :: "(real \<Rightarrow> real) \<Rightarrow> ndarray \<Rightarrow> ndarray" where
  "scale f a =
     \<lparr>nd_dtype = (if nd_dtype a = Dcomplex then Dcomplex else Ddouble),
      nd_data = map_nd f (nd_data a)\<rparr>"

text \<open>\<^verbatim>\<open>util.Units[str(dimension)][str(unit)].scale_factor\<close>.\<close>

definition scale_factor :: "env \<Rightarrow> string \<Rightarrow> pyunit \<Rightarrow> error + real" where
  "scale_factor E d u =
     (case Units E d of
        None \<Rightarrow> Inl KeyError
      | Some table \<Rightarrow>
          (case table (str_of E u) of None \<Rightarrow> Inl KeyError | Some f \<Rightarrow> Inr f))"

text \<open>The property \<^verbatim>\<open>expr\<close>, \<^verbatim>\<open>self.value * self.unit\<close>, kept as the pair of its factors.\<close>

definition expr :: "Quantity \<Rightarrow> ndarray \<times> pyunit" where
  "expr self = (value' self, unit self)"

text \<open>The branch \<^verbatim>\<open>if dimension == self.dimension\<close> of \<^verbatim>\<open>convert_to\<close>.\<close>

definition same_dimension :: "env \<Rightarrow> Quantity \<Rightarrow> string \<Rightarrow> pyunit \<Rightarrow> error + ndarray" where
  "same_dimension E self d u =
     (case scale_factor E d (unit self) of
        Inl e \<Rightarrow> Inl e
      | Inr f \<Rightarrow>
          (let scaled_value = scale (\<lambda>x. x * f) (astype (value' self) (dtype self))
           in case scale_factor E d u of
                Inl e \<Rightarrow> Inl e
              | Inr g \<Rightarrow> Inr (scale (\<lambda>x. x / g) scaled_value)))"

text \<open>
  The other branch, which the handler of \<^verbatim>\<open>AttributeError\<close> repeats: through
  \<^verbatim>\<open>convert_to_unit\<close>.
\<close>

definition cross_representation :: "env \<Rightarrow> Quantity \<Rightarrow> pyunit \<Rightarrow> error + ndarray" where
  "cross_representation E self u =
     (let v = zeros_like (value' self) (dtype self)
      in case len (nd_data (value' self)) of
           Inl e \<Rightarrow> Inl e
         | Inr l \<Rightarrow>
             if l = 1
             then (case convert_to_unit E (expr self) u of
                     Inl e \<Rightarrow> Inl e
                   | Inr arg \<Rightarrow>
                       (case setitem0 E v arg of
                          Inl e \<Rightarrow> Inl e
                        | Inr v \<Rightarrow> Inr (flatten v)))
             else (let shp = shape (nd_data (value' self));
                       ex = (flatten (fst (expr self)), snd (expr self))
                   in case convert_to_unit E ex u of
                        Inl e \<Rightarrow> Inl e
                      | Inr arg \<Rightarrow> reshape arg shp))"

text \<open>The \<^verbatim>\<open>try\<close> statement of \<^verbatim>\<open>convert_to\<close>: the converted values.\<close>

definition converted :: "env \<Rightarrow> Quantity \<Rightarrow> pyunit \<Rightarrow> error + ndarray" where
  "converted E self u =
     (case (case dimension_of E u of
              None \<Rightarrow> Inl AttributeError
            | Some d \<Rightarrow>
                if DimName d = dimension self then same_dimension E self d u
                else cross_representation E self u) of
        Inl AttributeError \<Rightarrow> cross_representation E self u
      | r \<Rightarrow> r)"

text \<open>
  \<^verbatim>\<open>convert_to\<close> returns a Quantity (\<open>Some q\<close>) or \<^verbatim>\<open>None\<close>; the second component is
  \<^verbatim>\<open>self\<close> as the call leaves it.
\<close>

definition convert_to ::
  "env \<Rightarrow> pyunit \<Rightarrow> bool \<Rightarrow> Quantity \<Rightarrow> (error + Quantity option) \<times> Quantity" where
  "convert_to E unit_arg inplace self =
     (case get_unit E unit_arg of
        Inl e \<Rightarrow> (Inl e, self)
      | Inr u \<Rightarrow>
          (case converted E self u of
             Inl e \<Rightarrow> (Inl e, self)
           | Inr v \<Rightarrow>
               if inplace
               then (case set_attributes E u v (dtype self) (copy self) (order self)
                            (subok self) False (ndmin self) self of
                       (Some e, self') \<Rightarrow> (Inl e, self')
                     | (None, self') \<Rightarrow> (Inr None, self'))
               else (case create_new_instance E self v u (name self) None of
                       Inl e \<Rightarrow> (Inl e, self)
                     | Inr q \<Rightarrow> (Inr (Some q), self))))"

subsection \<open>Iteration\<close>

text \<open>
  \<^verbatim>\<open>__iter__\<close> returns a generator that holds \<^verbatim>\<open>self\<close>, its unit and its name. The body
  starts at the first \<^verbatim>\<open>next\<close>: it takes the items of \<^verbatim>\<open>self.value\<close> along the first axis
  and wraps one item for each \<^verbatim>\<open>next\<close>. The Quantity is taken not to be assigned to
  while the generator runs.
\<close>

datatype generator =
    Created Quantity pyunit "string option"
  | Running Quantity pyunit "string option" "nd list"
  | Finished

definition iter :: "Quantity \<Rightarrow> generator" where
  "iter self = Created self (unit self) (name self)"

text \<open>
  One \<^verbatim>\<open>next\<close>: \<open>Inr (Some q)\<close> is the item yielded, \<open>Inr None\<close> is \<^verbatim>\<open>StopIteration\<close>; an
  exception ends the generator.
\<close>

fun resume ::
  "env \<Rightarrow> Quantity \<Rightarrow> pyunit \<Rightarrow> string option \<Rightarrow> nd list
     \<Rightarrow> (error + Quantity option) \<times> generator" where
  "resume E self u n [] = (Inr None, Finished)"
| "resume E self u n (x # xs) =
     (case create_new_instance E self \<lparr>nd_dtype = nd_dtype (value' self), nd_data = x\<rparr> u n
             None of
        Inl e \<Rightarrow> (Inl e, Finished)
      | Inr q \<Rightarrow> (Inr (Some q), Running self u n xs))"

fun next_item :: "env \<Rightarrow> generator \<Rightarrow> (error + Quantity option) \<times> generator" where
  "next_item E (Created self u n) =
     (case nd_data (value' self) of
        Sc x \<Rightarrow> (Inl TypeError, Finished)
      | Ar xs \<Rightarrow> resume E self u n xs)"
| "next_item E (Running self u n xs) = resume E self u n xs"
| "next_item E Finished = (Inr None, Finished)"

text \<open>At most \<open>k\<close> calls of \<^verbatim>\<open>next\<close>, stopping at \<^verbatim>\<open>StopIteration\<close> or at an exception.\<close>

fun pull :: "env \<Rightarrow> nat \<Rightarrow> generator \<Rightarrow> (error + Quantity list) \<times> generator" where
  "pull E 0 g = (Inr [], g)"
| "pull E (Suc k) g =
     (case next_item E g of
        (Inl e, g') \<Rightarrow> (Inl e, g')
      | (Inr None, g') \<Rightarrow> (Inr [], g')
      | (Inr (Some q), g') \<Rightarrow>
          (case pull E k g' of
             (Inl e, g'') \<Rightarrow> (Inl e, g'')
           | (Inr qs, g'') \<Rightarrow> (Inr (q # qs), g'')))"

subsection \<open>The operations on units, from the specification\<close>

text \<open>
  \<^verbatim>\<open>respy.unit_base.operations\<close> is not among the sources at hand. Its two functions are
  modelled from section 4.2 of the specification, over the parts that the specification
  leaves to its own collaborators: the rule of each operator name, the symbolic
  combination of two units, the power of a unit, and the primitive numeric operation.
\<close>

datatype rule = Additive | Multiplicative | Exponent

record algebra =
  rule_of :: "string \<rightharpoonup> rule"
  combine :: "string \<Rightarrow> pyunit \<Rightarrow> pyunit \<Rightarrow> pyunit"
  raise_to :: "pyunit \<Rightarrow> ndarray \<Rightarrow> pyunit"
  primitive :: "string \<Rightarrow> ndarray \<Rightarrow> ndarray \<Rightarrow> error + ndarray"

text \<open>
  An operand as the rules see it: its values, unit, dimension and name. One that carries
  no unit is wrapped as a dimensionless array (step 1).
\<close>

definition operand :: "pyobj \<Rightarrow> ndarray \<times> pyunit \<times> pydim \<times> string option" where
  "operand x =
     (case x of
        Qty q \<Rightarrow> (value' q, unit q, dimension q, name q)
      | Arr a \<Rightarrow> (a, ZeroU, DimZero, None))"

text \<open>
  Modelled from the spec: the values that stand for no unit, which the missing
  \<^verbatim>\<open>respy.unit_base.operations\<close> has to recognise: \<^verbatim>\<open>None\<close>, the number 1 and the two
  sentinels.
\<close>

definition dimensionless :: "pyunit \<Rightarrow> bool" where
  "dimensionless u = (u = PyNone \<or> u = PyInt 1 \<or> u = ZeroU \<or> u = OneU)"

text \<open>
  Modelled from the spec: \<^verbatim>\<open>compute_operation\<close> of \<^verbatim>\<open>respy.unit_base.operations\<close>, which
  is missing. Step 2 resolves the unit: an additive operator requires equal dimensions,
  raises the dimension mismatch otherwise and keeps the left unit; a multiplicative one
  combines the two units, and a combination that reduces to no unit is normalized to the
  marker \<^verbatim>\<open>None\<close>, which step 5 (in \<^verbatim>\<open>quantity.py\<close>) replaces by \<^verbatim>\<open>Zero\<close>; the power
  raises the left unit to the exponent. Step 3 runs the primitive operation; for a
  reflected operator the operands are swapped, in the rule as well. Step 4 gives the left
  operand's name, or the empty name, and the dtype of the result.
\<close>

definition compute_operation_spec ::
  "algebra \<Rightarrow> Quantity \<Rightarrow> pyobj \<Rightarrow> string \<Rightarrow> bool
     \<Rightarrow> error + (ndarray \<times> pyunit \<times> np_dtype \<times> string option)" where
  "compute_operation_spec A self other operator right_handed =
     (let (lhs, rhs) =
            (if right_handed then (operand other, operand (Qty self))
             else (operand (Qty self), operand other));
          (lv, lu, ld, ln) = lhs;
          (rv, ru, rd, rn) = rhs
      in case rule_of A operator of
           None \<Rightarrow> Inl KeyError
         | Some r \<Rightarrow>
             (case (case r of
                      Additive \<Rightarrow> if ld = rd then Inr lu else Inl DimensionError
                    | Multiplicative \<Rightarrow>
                        (let c = combine A operator lu ru
                         in Inr (if dimensionless c then PyNone else c))
                    | Exponent \<Rightarrow> Inr (raise_to A lu rv)) of
                Inl e \<Rightarrow> Inl e
              | Inr u \<Rightarrow>
                  (case primitive A operator lv rv of
                     Inl e \<Rightarrow> Inl e
                   | Inr v \<Rightarrow>
                       Inr (v, u, nd_dtype v, (case ln of None \<Rightarrow> Some [] | Some n \<Rightarrow> Some n)))))"

text \<open>
  Modelled from the spec: \<^verbatim>\<open>compute_bitwise_operation\<close> of
  \<^verbatim>\<open>respy.unit_base.operations\<close>, which is missing. It runs the primitive operation and
  returns the raw result, an array without unit.
\<close>

definition compute_bitwise_operation_spec ::
  "algebra \<Rightarrow> Quantity \<Rightarrow> pyobj \<Rightarrow> string \<Rightarrow> bool \<Rightarrow> error + pyobj" where
  "compute_bitwise_operation_spec A self other operator right_handed =
     (let (lhs, rhs) =
            (if right_handed then (operand other, operand (Qty self))
             else (operand (Qty self), operand other))
      in case primitive A operator (fst lhs) (fst rhs) of
           Inl e \<Rightarrow> Inl e
         | Inr v \<Rightarrow> Inr (Arr v))"

definition with_spec :: "algebra \<Rightarrow> env \<Rightarrow> env" where
  "with_spec A E =
     E\<lparr>compute_operation := compute_operation_spec A,
       compute_bitwise_operation := compute_bitwise_operation_spec A\<rparr>"

subsection \<open>A small instance for the scenarios\<close>

text \<open>
  Modelled from the spec: the collaborators that are missing (the unit parser, the unit
  table, the operator tables, the symbolic algebra, numpy), cut down to what the
  scenarios of section 8 need: the units meter, centimeter and second, one-dimensional
  operands, sympy's rule that a unit over itself is \<^verbatim>\<open>One\<close>, and \<^verbatim>\<open>None\<close> as the unit of
  two operands without unit. No scenario converts between dimensions: there
  \<^verbatim>\<open>convert_to_unit\<close> and the item assignment raise.
\<close>

definition demo_units :: "string list" where
  "demo_units = [''meter'', ''centimeter'', ''second'']"

fun demo_get_unit :: "pyunit \<Rightarrow> error + pyunit" where
  "demo_get_unit (PyStr s) = (if s \<in> set demo_units then Inr (Sym (Unit s)) else Inl UnitError)"
| "demo_get_unit (Sym e) = Inr (Sym e)"
| "demo_get_unit ZeroU = Inr ZeroU"
| "demo_get_unit OneU = Inr OneU"
| "demo_get_unit PyNone = Inl UnitError"
| "demo_get_unit (PyInt i) = Inl UnitError"

fun demo_dimension_name :: "pyunit \<Rightarrow> string option" where
  "demo_dimension_name (Sym (Unit s)) =
     (if s = ''meter'' \<or> s = ''centimeter'' then Some ''length''
      else if s = ''second'' then Some ''time''
      else None)"
| "demo_dimension_name u = None"

definition demo_UFUNC_NAME :: "string \<rightharpoonup> string" where
  "demo_UFUNC_NAME =
     map_of
       [(''__mul__'', ''multiply''), (''__truediv__'', ''true_divide''),
        (''__floordiv__'', ''floor_divide''), (''__mod__'', ''mod''),
        (''__add__'', ''add''), (''__sub__'', ''subtract''), (''__pow__'', ''power''),
        (''__rtruediv__'', ''true_divide''), (''__rsub__'', ''subtract''),
        (''__rfloordiv__'', ''floor_divide''), (''__rmod__'', ''mod''),
        (''__rpow__'', ''power'')]"

definition demo_rule_of :: "string \<rightharpoonup> rule" where
  "demo_rule_of =
     map_of
       [(''add'', Additive), (''subtract'', Additive), (''multiply'', Multiplicative),
        (''true_divide'', Multiplicative), (''floor_divide'', Multiplicative),
        (''mod'', Multiplicative), (''power'', Exponent)]"

definition no_unit :: "pyunit \<Rightarrow> bool" where
  "no_unit u = (u = PyNone \<or> u = ZeroU \<or> u = OneU)"

definition demo_combine :: "string \<Rightarrow> pyunit \<Rightarrow> pyunit \<Rightarrow> pyunit" where
  "demo_combine operator lu ru =
     (case (lu, ru) of
        (Sym a, Sym b) \<Rightarrow>
          (if operator = ''multiply'' then Sym (Mul a b)
           else if a = b then OneU
           else Sym (Div a b))
      | (Sym a, _) \<Rightarrow> (if no_unit ru then Sym a else PyNone)
      | (_, Sym b) \<Rightarrow>
          (if no_unit lu then (if operator = ''multiply'' then Sym b else Sym (Pow b (- 1)))
           else PyNone)
      | _ \<Rightarrow> PyNone)"

definition demo_raise_to :: "pyunit \<Rightarrow> ndarray \<Rightarrow> pyunit" where
  "demo_raise_to u a =
     (case (u, leaves (nd_data a)) of
        (Sym e, [x]) \<Rightarrow> Sym (Pow e \<lfloor>x\<rfloor>)
      | _ \<Rightarrow> PyNone)"

definition demo_function :: "string \<rightharpoonup> (real \<Rightarrow> real \<Rightarrow> real)" where
  "demo_function =
     map_of
       [(''add'', (+)), (''subtract'', (-)), (''multiply'', (*)), (''true_divide'', (/)),
        (''floor_divide'', (\<lambda>x y. of_int \<lfloor>x / y\<rfloor>)),
        (''mod'', (\<lambda>x y. x - y * of_int \<lfloor>x / y\<rfloor>)),
        (''power'', (\<lambda>x y. x ^ nat \<lfloor>y\<rfloor>))]"

definition demo_primitive :: "string \<Rightarrow> ndarray \<Rightarrow> ndarray \<Rightarrow> error + ndarray" where
  "demo_primitive operator a b =
     (case demo_function operator of
        None \<Rightarrow> Inl KeyError
      | Some f \<Rightarrow>
          (let xs = leaves (nd_data a); ys = leaves (nd_data b)
           in if length xs = length ys
              then Inr \<lparr>nd_dtype = Ddouble, nd_data = Ar (map Sc (map2 f xs ys))\<rparr>
              else Inl ValueError))"

definition demo_algebra :: algebra where
  "demo_algebra =
     \<lparr>rule_of = demo_rule_of, combine = demo_combine, raise_to = demo_raise_to,
      primitive = demo_primitive\<rparr>"

text \<open>\<^verbatim>\<open>ndmin\<close>: axes of length one are put in front until there are that many.\<close>

definition prepend_axes :: "nat \<Rightarrow> nd \<Rightarrow> nd" where
  "prepend_axes m d = ((\<lambda>x. Ar [x]) ^^ (m - length (shape d))) d"

definition demo_np_array ::
  "ndarray \<Rightarrow> np_dtype option \<Rightarrow> bool \<Rightarrow> string option \<Rightarrow> bool \<Rightarrow> nat \<Rightarrow> error + ndarray" where
  "demo_np_array a t c ord s m =
     (let b = (case t of None \<Rightarrow> a | Some d \<Rightarrow> astype a d)
      in Inr (b\<lparr>nd_data := prepend_axes m (nd_data b)\<rparr>))"

definition demo_Units :: "string \<rightharpoonup> (string \<rightharpoonup> real)" where
  "demo_Units =
     map_of
       [(''length'', map_of [(''meter'', 1), (''centimeter'', 1 / 100)]),
        (''time'', map_of [(''second'', 1)])]"

fun demo_str_of :: "pyunit \<Rightarrow> string" where
  "demo_str_of (Sym (Unit s)) = s"
| "demo_str_of u = ''-''"

definition demo_env :: env where
  "demo_env =
     \<lparr>get_unit = demo_get_unit, dimension_name = demo_dimension_name,
      UFUNC_NAME = demo_UFUNC_NAME,
      compute_operation = compute_operation_spec demo_algebra,
      compute_bitwise_operation = compute_bitwise_operation_spec demo_algebra,
      np_array = demo_np_array, Units = demo_Units, str_of = demo_str_of,
      convert_to_unit = (\<lambda>ex u. Inl UnitError),
      setitem0 = (\<lambda>v x. Inl ValueError)\<rparr>"

text \<open>
  \<^verbatim>\<open>Quantity(value, unit)\<close> with the defaults of the other arguments; a Python integer and
  a list of Python integers as numpy reads them.
\<close>

definition Quantity_of :: "env \<Rightarrow> ndarray \<Rightarrow> pyunit \<Rightarrow> error + Quantity" where
  "Quantity_of E v u = new E v u None True None False 0 None False"

definition py_int :: "int \<Rightarrow> ndarray" where
  "py_int i = \<lparr>nd_dtype = Dint, nd_data = Sc (of_int i)\<rparr>"

definition py_list :: "nd list \<Rightarrow> ndarray" where
  "py_list xs = \<lparr>nd_dtype = Dint, nd_data = Ar xs\<rparr>"

text \<open>The Quantity that the constructor returns for a one-dimensional array of doubles.\<close>

definition quantity_1d :: "real list \<Rightarrow> pyunit \<Rightarrow> pydim \<Rightarrow> Quantity" where
  "quantity_1d xs u d =
     \<lparr>unit = u, dimension = d, value' = \<lparr>nd_dtype = Ddouble, nd_data = Ar (map Sc xs)\<rparr>,
      dtype = Ddouble, name = Some [], constant' = False, copy = True, order = None,
      subok = False, ndmin = 0, quantity = Some True,
      buffer = \<lparr>nd_dtype = Ddouble, nd_data = Ar (map Sc xs)\<rparr>\<rparr>"

section \<open>Properties\<close>

subsection \<open>What the private methods store\<close>

lemmas demo_simps =
  demo_env_def demo_algebra_def demo_UFUNC_NAME_def demo_rule_of_def demo_combine_def
  demo_primitive_def demo_function_def demo_np_array_def prepend_axes_def astype_def
  demo_units_def no_unit_def dimensionless_def
  compute_operation_spec_def compute_bitwise_operation_spec_def operand_def
  check_other_def atleast_1d_def quantity_1d_def py_int_def py_list_def

lemma set_attributes_fields:
  assumes "(if u = PyNone \<or> isinstance_One u then Inr PyNone else get_unit E u) = Inr U"
  shows "set_attributes E u a t c ord s k m v =
           (None,
            v\<lparr>unit := U,
              dimension := (case dimension_of E U of Some d \<Rightarrow> DimName d | None \<Rightarrow> DimNone),
              value' := a, dtype := t, copy := c, order := ord, subok := s, constant' := k,
              ndmin := m\<rparr>)"
  using assms by (simp add: set_attributes_def Let_def)

lemma set_attributes_raises:
  "set_attributes E u a t c ord s k m v = (Some e, v') \<Longrightarrow> v' = v"
  by (auto simp: set_attributes_def Let_def split: sum.splits if_splits)

lemma create_new_instance_fields:
  assumes "np_array E v (Some (case t of None \<Rightarrow> dtype self | Some d \<Rightarrow> d)) False
             (order self) (subok self) 0 = Inr x"
    and "(if u = PyNone \<or> u = PyInt 1 \<or> u = OneU then Inr PyNone else get_unit E u) = Inr U"
  shows "create_new_instance E self v u n t =
           Inr \<lparr>unit = U,
                dimension = (case dimension_of E U of Some d \<Rightarrow> DimName d | None \<Rightarrow> DimNone),
                value' = atleast_1d x,
                dtype = (case t of None \<Rightarrow> dtype self | Some d \<Rightarrow> d), name = n,
                constant' = constant' self, copy = copy self, order = order self,
                subok = subok self, ndmin = ndmin self, quantity = None,
                buffer = atleast_1d x\<rparr>"
  using assms
  by (auto simp: create_new_instance_def Let_def set_attributes_def isinstance_One_def
        view_def set_name_def split: if_splits)

lemma create_new_instance_dimension:
  "create_new_instance E self v u n t = Inr r \<Longrightarrow> dimension r \<noteq> DimZero"
  by (auto simp: create_new_instance_def Let_def set_attributes_def set_name_def
        split: sum.splits if_splits option.splits)

lemma wrapped_operation_result:
  assumes "UFUNC_NAME E nm = Some opr"
    and "compute_operation E self (check_other other) opr rh = Inr (v, u, t, n)"
  shows "wrapped_operation E nm rh self other =
           create_new_instance E self v (if u = PyNone then ZeroU else u) n (Some t)"
  using assms by (simp add: wrapped_operation_def Let_def)

lemma wrapped_operation_dimension:
  "wrapped_operation E nm rh self other = Inr r \<Longrightarrow> dimension r \<noteq> DimZero"
  by (auto simp: wrapped_operation_def Let_def split: sum.splits option.splits
        dest: create_new_instance_dimension)

lemma with_spec_simps [simp]:
  "compute_operation (with_spec A E) = compute_operation_spec A"
  "compute_bitwise_operation (with_spec A E) = compute_bitwise_operation_spec A"
  "UFUNC_NAME (with_spec A E) = UFUNC_NAME E"
  "get_unit (with_spec A E) = get_unit E"
  "np_array (with_spec A E) = np_array E"
  "dimension_name (with_spec A E) = dimension_name E"
  by (simp_all add: with_spec_def)

lemma dimension_of_with_spec [simp]: "dimension_of (with_spec A E) = dimension_of E"
  by (rule ext) (simp add: dimension_of_def split: pyunit.splits)


lemma wrapped_operation_normalizes:
  assumes "UFUNC_NAME E nm = Some opr"
    and "compute_operation E self (check_other other) opr rh = Inr (v, PyNone, t, n)"
  shows "wrapped_operation E nm rh self other = create_new_instance E self v ZeroU n (Some t)"
  using wrapped_operation_result [OF assms] by simp

lemma bitwise_operation_spec_raw:
  "bitwise_operation (with_spec A E) nm rh self other \<noteq> Inr (Qty q)"
  by (auto simp: bitwise_operation_def with_spec_def compute_bitwise_operation_spec_def Let_def
        split: option.splits sum.splits prod.splits)

subsection \<open>Reflected floor division\<close>

text \<open>
  C10. \<^verbatim>\<open>__rfloordiv__\<close> leaves out the test \<^verbatim>\<open>if unit is None: unit = Zero\<close>. When
  \<^verbatim>\<open>compute_operation\<close> resolves the unit \<^verbatim>\<open>None\<close>, the Quantity it returns has the unit
  \<^verbatim>\<open>None\<close> and the dimension \<^verbatim>\<open>None\<close>, whereas \<^verbatim>\<open>__floordiv__\<close> hands \<^verbatim>\<open>Zero\<close> to
  \<^verbatim>\<open>__create_new_instance\<close>, so that its result carries what \<^verbatim>\<open>get_unit\<close> makes of
  \<^verbatim>\<open>Zero\<close>.
\<close>

theorem rfloordiv_omits_normalization:
  assumes "UFUNC_NAME E ''__rfloordiv__'' = Some opr"
    and "UFUNC_NAME E ''__floordiv__'' = Some opl"
    and "compute_operation E self (check_other other) opr True = Inr (v, PyNone, t, n)"
    and "compute_operation E self (check_other other) opl False = Inr (v', PyNone, t', n')"
    and "np_array E v (Some t) False (order self) (subok self) 0 = Inr x"
  shows "(\<exists>r. q_rfloordiv E self other = Inr r \<and> unit r = PyNone \<and> dimension r = DimNone)
       \<and> q_floordiv E self other = create_new_instance E self v' ZeroU n' (Some t')
       \<and> (\<forall>r'. q_floordiv E self other = Inr r' \<longrightarrow> get_unit E ZeroU = Inr (unit r'))"
proof -
  have "q_rfloordiv E self other = create_new_instance E self v PyNone n (Some t)"
    using assms(1,3) by (simp add: q_rfloordiv_def Let_def)
  moreover have "create_new_instance E self v PyNone n (Some t) =
      Inr \<lparr>unit = PyNone, dimension = DimNone, value' = atleast_1d x, dtype = t, name = n,
           constant' = constant' self, copy = copy self, order = order self,
           subok = subok self, ndmin = ndmin self, quantity = None,
           buffer = atleast_1d x\<rparr>"
    using create_new_instance_fields
            [where E = E and v = v and t = "Some t" and self = self and x = x
               and u = PyNone and U = PyNone and n = n] assms(5)
    by (simp add: dimension_of_def)
  ultimately have 1:
    "\<exists>r. q_rfloordiv E self other = Inr r \<and> unit r = PyNone \<and> dimension r = DimNone"
    by simp
  have 2: "q_floordiv E self other = create_new_instance E self v' ZeroU n' (Some t')"
    using wrapped_operation_result [OF assms(2,4)] by (simp add: q_floordiv_def)
  have 3: "get_unit E ZeroU = Inr (unit r')" if "q_floordiv E self other = Inr r'" for r'
    using that unfolding 2
    by (auto simp: create_new_instance_def Let_def set_attributes_def isinstance_One_def
          set_name_def split: sum.splits)
  from 1 2 3 show ?thesis by blast
qed

text \<open>
  The operands \<^verbatim>\<open>7 // Quantity(2)\<close> and \<^verbatim>\<open>Quantity(2) // 7\<close> in the small instance, where
  two operands without unit resolve to \<^verbatim>\<open>None\<close>.
\<close>

theorem rfloordiv_omits_normalization_witness:
  "(\<exists>r. q_rfloordiv demo_env (quantity_1d [2] ZeroU DimZero) (Arr (py_int 7)) = Inr r
        \<and> unit r = PyNone \<and> dimension r = DimNone)
   \<and> q_floordiv demo_env (quantity_1d [2] ZeroU DimZero) (Arr (py_int 7)) =
       Inr ((quantity_1d [0] ZeroU DimNone)\<lparr>quantity := None\<rparr>)
   \<and> get_unit demo_env ZeroU = Inr (unit ((quantity_1d [0] ZeroU DimNone)\<lparr>quantity := None\<rparr>))"
proof -
  let ?q = "quantity_1d [2] ZeroU DimZero"
  let ?r = "(quantity_1d [0] ZeroU DimNone)\<lparr>quantity := None\<rparr>"
  have w:
    "(\<exists>r. q_rfloordiv demo_env ?q (Arr (py_int 7)) = Inr r \<and> unit r = PyNone
          \<and> dimension r = DimNone)
     \<and> q_floordiv demo_env ?q (Arr (py_int 7)) =
         create_new_instance demo_env ?q \<lparr>nd_dtype = Ddouble, nd_data = Ar [Sc 0]\<rparr> ZeroU
           (Some []) (Some Ddouble)
     \<and> (\<forall>r'. q_floordiv demo_env ?q (Arr (py_int 7)) = Inr r'
           \<longrightarrow> get_unit demo_env ZeroU = Inr (unit r'))"
    by (rule rfloordiv_omits_normalization
          [where opr = "''floor_divide''" and opl = "''floor_divide''"
             and v = "\<lparr>nd_dtype = Ddouble, nd_data = Ar [Sc 3]\<rparr>" and t = Ddouble
             and n = "Some []" and t' = Ddouble and n' = "Some []"
             and v' = "\<lparr>nd_dtype = Ddouble, nd_data = Ar [Sc 0]\<rparr>"
             and x = "\<lparr>nd_dtype = Ddouble, nd_data = Ar [Sc 3]\<rparr>"])
       (simp_all add: demo_simps)
  have e: "create_new_instance demo_env ?q \<lparr>nd_dtype = Ddouble, nd_data = Ar [Sc 0]\<rparr> ZeroU
             (Some []) (Some Ddouble) = Inr ?r"
    by (simp add: create_new_instance_def set_attributes_def isinstance_One_def view_def
          set_name_def dimension_of_def Let_def demo_simps)
  from w e show ?thesis by simp
qed

subsection \<open>Construction\<close>

text \<open>
  C7. When numpy accepts the value, \<^verbatim>\<open>Quantity(v)\<close> without unit has the unit \<^verbatim>\<open>Zero\<close> and
  the dimension \<^verbatim>\<open>Zero\<close>; and for a unit identifier that \<^verbatim>\<open>get_unit\<close> resolves to a unit
  without \<^verbatim>\<open>dimension.name\<close>, the constructor returns a Quantity with the resolved unit and
  the dimension \<^verbatim>\<open>Zero\<close>: no exception is raised.
\<close>

theorem new_dimensionless:
  assumes "np_array E v t c ord s m = Inr x"
  shows "(\<exists>q. new E v PyNone t c ord s m n k = Inr q \<and> unit q = ZeroU \<and> dimension q = DimZero)
       \<and> (\<forall>u r. u \<noteq> PyNone \<and> get_unit E u = Inr r \<and> dimension_of E r = None
             \<longrightarrow> (\<exists>q. new E v u t c ord s m n k = Inr q \<and> unit q = r \<and> dimension q = DimZero))"
  using assms by (simp add: new_def Let_def)

theorem new_dimensionless_witness:
  "(\<exists>q. Quantity_of demo_env (py_int 7) PyNone = Inr q \<and> unit q = ZeroU \<and> dimension q = DimZero)
   \<and> OneU \<noteq> PyNone \<and> get_unit demo_env OneU = Inr OneU \<and> dimension_of demo_env OneU = None
   \<and> (\<exists>q. Quantity_of demo_env (py_int 7) OneU = Inr q \<and> unit q = OneU \<and> dimension q = DimZero)"
proof -
  have a: "np_array demo_env (py_int 7) None True None False 0 = Inr (py_int 7)"
    by (simp add: demo_simps)
  have h: "OneU \<noteq> PyNone \<and> get_unit demo_env OneU = Inr OneU \<and> dimension_of demo_env OneU = None"
    by (simp add: demo_env_def dimension_of_def)
  from new_dimensionless [OF a, of None False] h show ?thesis
    unfolding Quantity_of_def by blast
qed

subsection \<open>The unit None of an operation\<close>

text \<open>
  C8. Every operator with the shared body replaces the unit \<^verbatim>\<open>None\<close> by \<^verbatim>\<open>Zero\<close>, the
  unit of a construction without unit (\<open>wrapped_operation_normalizes\<close>); reflected floor
  division does not. At \<^verbatim>\<open>7 // Quantity(2)\<close> the result has the unit \<^verbatim>\<open>None\<close>, where
  \<^verbatim>\<open>Quantity(7) // 2\<close>, with the same resolved unit, has the unit \<^verbatim>\<open>Zero\<close> of
  \<^verbatim>\<open>Quantity(2)\<close>.
\<close>

theorem reflected_floordiv_not_normalized:
  "q_rfloordiv demo_env (quantity_1d [2] ZeroU DimZero) (Arr (py_int 7)) =
     Inr ((quantity_1d [3] PyNone DimNone)\<lparr>quantity := None\<rparr>)
   \<and> q_floordiv demo_env (quantity_1d [7] ZeroU DimZero) (Arr (py_int 2)) =
     Inr ((quantity_1d [3] ZeroU DimNone)\<lparr>quantity := None\<rparr>)
   \<and> Quantity_of demo_env (py_int 2) PyNone = Inr (quantity_1d [2] ZeroU DimZero)"
  by (simp add: q_rfloordiv_def q_floordiv_def wrapped_operation_def create_new_instance_def
        set_attributes_def isinstance_One_def view_def set_name_def dimension_of_def Let_def
        Quantity_of_def new_def demo_simps)

subsection \<open>Reflected modulo and power\<close>

text \<open>
  C6. \<^verbatim>\<open>__rmod__\<close> and \<^verbatim>\<open>__rpow__\<close> return what \<^verbatim>\<open>compute_bitwise_operation\<close> returns, a
  raw array (\<open>bitwise_operation_spec_raw\<close>): \<^verbatim>\<open>5 % Quantity(3, "meter")\<close> and
  \<^verbatim>\<open>2 ** Quantity(3, "meter")\<close> are arrays without unit, where
  \<^verbatim>\<open>Quantity(5, "meter") % 3\<close> is a Quantity in meter.
\<close>

theorem rmod_returns_raw:
  "q_rmod demo_env (quantity_1d [3] (Sym (Unit ''meter'')) (DimName ''length'')) (Arr (py_int 5)) =
     Inr (Arr \<lparr>nd_dtype = Ddouble, nd_data = Ar [Sc 2]\<rparr>)
   \<and> q_rpow demo_env (quantity_1d [3] (Sym (Unit ''meter'')) (DimName ''length'')) (Arr (py_int 2)) =
     Inr (Arr \<lparr>nd_dtype = Ddouble, nd_data = Ar [Sc 8]\<rparr>)
   \<and> q_mod demo_env (quantity_1d [5] (Sym (Unit ''meter'')) (DimName ''length'')) (Arr (py_int 3)) =
     Inr ((quantity_1d [2] (Sym (Unit ''meter'')) (DimName ''length''))\<lparr>quantity := None\<rparr>)"
  by (simp add: q_rmod_def q_rpow_def q_mod_def bitwise_operation_def wrapped_operation_def create_new_instance_def
        set_attributes_def isinstance_One_def view_def set_name_def dimension_of_def Let_def
        demo_simps)

subsection \<open>Addition and subtraction\<close>

text \<open>
  C1. With \<^verbatim>\<open>compute_operation\<close> as the specification describes it, \<^verbatim>\<open>a + b\<close> and
  \<^verbatim>\<open>a - b\<close> raise the dimension mismatch for all Quantities \<open>a\<close> and \<open>b\<close> of different
  dimensions: \<^verbatim>\<open>__add__\<close> and \<^verbatim>\<open>__sub__\<close> pass the exception on.
\<close>

theorem additive_dimension_mismatch:
  assumes "UFUNC_NAME E ''__add__'' = Some oa" and "rule_of A oa = Some Additive"
    and "UFUNC_NAME E ''__sub__'' = Some os" and "rule_of A os = Some Additive"
    and "dimension a \<noteq> dimension b"
  shows "q_add (with_spec A E) a (Qty b) = Inl DimensionError
       \<and> q_sub (with_spec A E) a (Qty b) = Inl DimensionError"
  using assms
  by (simp add: q_add_def q_sub_def wrapped_operation_def check_other_def
        compute_operation_spec_def operand_def Let_def)

theorem additive_dimension_mismatch_witness:
  "Quantity_of demo_env (py_int 1) (PyStr ''meter'') =
     Inr (quantity_1d [1] (Sym (Unit ''meter'')) (DimName ''length''))
   \<and> Quantity_of demo_env (py_int 1) (PyStr ''second'') =
     Inr (quantity_1d [1] (Sym (Unit ''second'')) (DimName ''time''))
   \<and> q_add (with_spec demo_algebra demo_env)
       (quantity_1d [1] (Sym (Unit ''meter'')) (DimName ''length''))
       (Qty (quantity_1d [1] (Sym (Unit ''second'')) (DimName ''time''))) = Inl DimensionError
   \<and> q_sub (with_spec demo_algebra demo_env)
       (quantity_1d [1] (Sym (Unit ''meter'')) (DimName ''length''))
       (Qty (quantity_1d [1] (Sym (Unit ''second'')) (DimName ''time''))) = Inl DimensionError"
proof -
  have c: "Quantity_of demo_env (py_int 1) (PyStr ''meter'') =
             Inr (quantity_1d [1] (Sym (Unit ''meter'')) (DimName ''length''))
         \<and> Quantity_of demo_env (py_int 1) (PyStr ''second'') =
             Inr (quantity_1d [1] (Sym (Unit ''second'')) (DimName ''time''))"
    by (simp add: Quantity_of_def new_def view_def dimension_of_def Let_def demo_simps)
  have d: "dimension (quantity_1d [1] (Sym (Unit ''meter'')) (DimName ''length''))
         \<noteq> dimension (quantity_1d [1] (Sym (Unit ''second'')) (DimName ''time''))"
    by (simp add: quantity_1d_def)
  have u: "UFUNC_NAME demo_env ''__add__'' = Some ''add''"
      "rule_of demo_algebra ''add'' = Some Additive"
      "UFUNC_NAME demo_env ''__sub__'' = Some ''subtract''"
      "rule_of demo_algebra ''subtract'' = Some Additive"
    by (simp_all add: demo_simps)
  from additive_dimension_mismatch [OF u d] c show ?thesis by simp
qed

text \<open>
  C2. The sum of two Quantities constructed without unit keeps the unit, \<^verbatim>\<open>Zero\<close>, and
  not the dimension. For a unit without \<^verbatim>\<open>dimension.name\<close>, \<^verbatim>\<open>__new__\<close> derives the
  dimension \<^verbatim>\<open>Zero\<close> and \<^verbatim>\<open>__set_attributes\<close> derives \<^verbatim>\<open>None\<close>: \<^verbatim>\<open>Quantity(5) + Quantity(3)\<close>
  has the dimension \<^verbatim>\<open>None\<close>, where \<^verbatim>\<open>Quantity(5)\<close> has \<^verbatim>\<open>Zero\<close>. Whatever
  \<^verbatim>\<open>compute_operation\<close> does, no result of an operator has the dimension \<^verbatim>\<open>Zero\<close>
  (\<open>wrapped_operation_dimension\<close>).
\<close>

theorem add_unitless_dimension:
  "Quantity_of demo_env (py_int 5) PyNone = Inr (quantity_1d [5] ZeroU DimZero)
   \<and> Quantity_of demo_env (py_int 3) PyNone = Inr (quantity_1d [3] ZeroU DimZero)
   \<and> dimension (quantity_1d [5] ZeroU DimZero) = dimension (quantity_1d [3] ZeroU DimZero)
   \<and> q_add demo_env (quantity_1d [5] ZeroU DimZero) (Qty (quantity_1d [3] ZeroU DimZero)) =
       Inr ((quantity_1d [8] ZeroU DimNone)\<lparr>quantity := None\<rparr>)
   \<and> dimension ((quantity_1d [8] ZeroU DimNone)\<lparr>quantity := None\<rparr>)
       \<noteq> dimension (quantity_1d [5] ZeroU DimZero)"
  by (simp add: q_add_def wrapped_operation_def create_new_instance_def
        set_attributes_def isinstance_One_def view_def set_name_def dimension_of_def Let_def
        Quantity_of_def new_def demo_simps)

subsection \<open>Multiplication and division\<close>




subsection \<open>Conversion\<close>

lemma convert_to_raises:
  "convert_to E u i q = (Inl e, q') \<Longrightarrow> q' = q"
  by (auto simp: convert_to_def split: sum.splits if_splits prod.splits option.splits
        dest: set_attributes_raises)

lemma convert_to_copy_keeps_self: "snd (convert_to E u False q) = q"
  by (simp add: convert_to_def split: sum.splits)

text \<open>
  What a conversion in place does not assign: \<^verbatim>\<open>_dtype\<close>, for which \<^verbatim>\<open>convert_to\<close> passes
  the old \<^verbatim>\<open>self._dtype\<close> and not the \<^verbatim>\<open>value.dtype\<close> it has just computed, and the numbers
  of the array itself.
\<close>

lemma convert_to_inplace_not_assigned:
  "convert_to E u True q = (r, q') \<Longrightarrow> dtype q' = dtype q \<and> buffer q' = buffer q"
  by (auto simp: convert_to_def set_attributes_def Let_def
        split: sum.splits if_splits prod.splits option.splits)

text \<open>
  C5 as stated fails on the attribute \<^verbatim>\<open>constant\<close>: the call of \<^verbatim>\<open>__set_attributes\<close> in
  \<^verbatim>\<open>convert_to\<close> passes \<^verbatim>\<open>False\<close> for it, so a conversion in place of
  \<^verbatim>\<open>Quantity(10, "meter", constant=True)\<close> leaves \<^verbatim>\<open>constant\<close> false.
\<close>

theorem convert_inplace_constant_counterexample:
  "new demo_env (py_int 10) (PyStr ''meter'') None True None False 0 None True =
     Inr ((quantity_1d [10] (Sym (Unit ''meter'')) (DimName ''length''))\<lparr>constant' := True\<rparr>)
   \<and> convert_to demo_env (PyStr ''centimeter'') True
       ((quantity_1d [10] (Sym (Unit ''meter'')) (DimName ''length''))\<lparr>constant' := True\<rparr>) =
     (Inr None,
      (quantity_1d [1000] (Sym (Unit ''centimeter'')) (DimName ''length''))
        \<lparr>buffer := \<lparr>nd_dtype = Ddouble, nd_data = Ar [Sc 10]\<rparr>\<rparr>)
   \<and> constant' ((quantity_1d [1000] (Sym (Unit ''centimeter'')) (DimName ''length''))
                  \<lparr>buffer := \<lparr>nd_dtype = Ddouble, nd_data = Ar [Sc 10]\<rparr>\<rparr>)
       \<noteq> constant' ((quantity_1d [10] (Sym (Unit ''meter'')) (DimName ''length''))
                      \<lparr>constant' := True\<rparr>)"
  by (simp add: convert_to_def converted_def same_dimension_def scale_factor_def scale_def
        set_attributes_def isinstance_One_def dimension_of_def Let_def
        new_def view_def demo_Units_def demo_simps)

text \<open>
  C5, amended. For a target \<open>u\<close> that \<^verbatim>\<open>get_unit\<close> resolves and values that convert,
  \<^verbatim>\<open>convert_to(u, inplace=True)\<close> returns \<^verbatim>\<open>None\<close> and assigns the attributes \<^verbatim>\<open>unit\<close>,
  \<^verbatim>\<open>value\<close> and \<^verbatim>\<open>dimension\<close> together, and \<^verbatim>\<open>constant\<close>, which becomes \<^verbatim>\<open>False\<close>;
  \<^verbatim>\<open>name\<close>, \<^verbatim>\<open>copy\<close>, \<^verbatim>\<open>order\<close>, \<^verbatim>\<open>subok\<close> and \<^verbatim>\<open>ndmin\<close> are as before. The update is
  atomic: a call that raises leaves the Quantity as it was. The unit stored is the
  resolved unit passed to \<^verbatim>\<open>get_unit\<close> once more, \<^verbatim>\<open>None\<close> when it is \<^verbatim>\<open>One\<close>.
  \<^verbatim>\<open>convert_to(u, inplace=False)\<close> leaves the Quantity unchanged and returns a new one
  with that unit, the converted values as \<^verbatim>\<open>numpy.array\<close> returns them, and the name of
  the original. Nothing is said of \<^verbatim>\<open>_dtype\<close> and of the numbers of the array itself.
\<close>

theorem convert_to_frame:
  "(\<forall>i e q'. convert_to E u i q = (Inl e, q') \<longrightarrow> q' = q)
   \<and> snd (convert_to E u False q) = q
   \<and> (\<forall>ru v U.
         get_unit E u = Inr ru \<and> converted E q ru = Inr v
         \<and> (if ru = PyNone \<or> ru = OneU then Inr PyNone else get_unit E ru) = Inr U
         \<longrightarrow> (\<exists>q'. convert_to E u True q = (Inr None, q')
                 \<and> unit q' = U
                 \<and> dimension q' =
                     (case dimension_of E U of Some d \<Rightarrow> DimName d | None \<Rightarrow> DimNone)
                 \<and> value' q' = v \<and> constant' q' = False
                 \<and> name q' = name q \<and> copy q' = copy q \<and> order q' = order q
                 \<and> subok q' = subok q \<and> ndmin q' = ndmin q))
   \<and> (\<forall>ru v U x.
         get_unit E u = Inr ru \<and> converted E q ru = Inr v
         \<and> (if ru = PyNone \<or> ru = PyInt 1 \<or> ru = OneU then Inr PyNone else get_unit E ru) = Inr U
         \<and> np_array E v (Some (dtype q)) False (order q) (subok q) 0 = Inr x
         \<longrightarrow> (\<exists>r. convert_to E u False q = (Inr (Some r), q)
                 \<and> unit r = U \<and> value' r = atleast_1d x \<and> name r = name q))"
proof -
  have 1: "\<forall>i e q'. convert_to E u i q = (Inl e, q') \<longrightarrow> q' = q"
    using convert_to_raises by blast
  have 3: "\<exists>q'. convert_to E u True q = (Inr None, q')
                 \<and> unit q' = U
                 \<and> dimension q' =
                     (case dimension_of E U of Some d \<Rightarrow> DimName d | None \<Rightarrow> DimNone)
                 \<and> value' q' = v \<and> constant' q' = False
                 \<and> name q' = name q \<and> copy q' = copy q \<and> order q' = order q
                 \<and> subok q' = subok q \<and> ndmin q' = ndmin q"
    if "get_unit E u = Inr ru" and "converted E q ru = Inr v"
      and "(if ru = PyNone \<or> ru = OneU then Inr PyNone else get_unit E ru) = Inr U"
    for ru v U
    using that
      set_attributes_fields
        [where E = E and u = ru and U = U and a = v and t = "dtype q" and c = "copy q"
           and ord = "order q" and s = "subok q" and k = False and m = "ndmin q" and v = q]
    by (simp add: convert_to_def isinstance_One_def)
  have 4: "\<exists>r. convert_to E u False q = (Inr (Some r), q)
                 \<and> unit r = U \<and> value' r = atleast_1d x \<and> name r = name q"
    if "get_unit E u = Inr ru" and "converted E q ru = Inr v"
      and "(if ru = PyNone \<or> ru = PyInt 1 \<or> ru = OneU then Inr PyNone else get_unit E ru) = Inr U"
      and "np_array E v (Some (dtype q)) False (order q) (subok q) 0 = Inr x"
    for ru v U x
    using that
      create_new_instance_fields
        [where E = E and v = v and t = None and self = q and x = x and u = ru and U = U
           and n = "name q"]
    by (simp add: convert_to_def)
  from 1 3 4 convert_to_copy_keeps_self show ?thesis by blast
qed

theorem convert_to_frame_witness:
  "convert_to demo_env (PyStr ''centimeter'') True
       ((quantity_1d [10] (Sym (Unit ''meter'')) (DimName ''length''))
          \<lparr>name := Some ''d'', constant' := True\<rparr>) =
     (Inr None,
      (quantity_1d [1000] (Sym (Unit ''centimeter'')) (DimName ''length''))
        \<lparr>name := Some ''d'', buffer := \<lparr>nd_dtype = Ddouble, nd_data = Ar [Sc 10]\<rparr>\<rparr>)
   \<and> (\<exists>q'. convert_to demo_env (PyStr ''centimeter'') True
              ((quantity_1d [10] (Sym (Unit ''meter'')) (DimName ''length''))
                 \<lparr>name := Some ''d'', constant' := True\<rparr>) = (Inr None, q')
         \<and> unit q' = Sym (Unit ''centimeter'') \<and> dimension q' = DimName ''length''
         \<and> value' q' = \<lparr>nd_dtype = Ddouble, nd_data = Ar [Sc 1000]\<rparr>
         \<and> constant' q' = False \<and> name q' = Some ''d'' \<and> copy q' = True
         \<and> order q' = None \<and> subok q' = False \<and> ndmin q' = 0)
   \<and> (\<exists>r. convert_to demo_env (PyStr ''centimeter'') False
             ((quantity_1d [10] (Sym (Unit ''meter'')) (DimName ''length''))
                \<lparr>name := Some ''d'', constant' := True\<rparr>) =
           (Inr (Some r),
            (quantity_1d [10] (Sym (Unit ''meter'')) (DimName ''length''))
              \<lparr>name := Some ''d'', constant' := True\<rparr>)
         \<and> unit r = Sym (Unit ''centimeter'')
         \<and> value' r = \<lparr>nd_dtype = Ddouble, nd_data = Ar [Sc 1000]\<rparr>
         \<and> name r = Some ''d'')
   \<and> convert_to demo_env (PyStr ''parsec'') True
       ((quantity_1d [10] (Sym (Unit ''meter'')) (DimName ''length''))
          \<lparr>name := Some ''d'', constant' := True\<rparr>) =
     (Inl UnitError,
      (quantity_1d [10] (Sym (Unit ''meter'')) (DimName ''length''))
        \<lparr>name := Some ''d'', constant' := True\<rparr>)"
proof -
  let ?q = "(quantity_1d [10] (Sym (Unit ''meter'')) (DimName ''length''))
              \<lparr>name := Some ''d'', constant' := True\<rparr>"
  let ?cm = "Sym (Unit ''centimeter'')"
  let ?v = "\<lparr>nd_dtype = Ddouble, nd_data = Ar [Sc 1000]\<rparr>"
  have g: "get_unit demo_env (PyStr ''centimeter'') = Inr ?cm"
    by (simp add: demo_simps)
  have c: "converted demo_env ?q ?cm = Inr ?v"
    by (simp add: converted_def same_dimension_def scale_factor_def scale_def
          dimension_of_def Let_def demo_Units_def demo_simps)
  have s: "(if ?cm = PyNone \<or> ?cm = PyInt 1 \<or> ?cm = OneU then Inr PyNone
            else get_unit demo_env ?cm) = Inr ?cm"
    "(if ?cm = PyNone \<or> ?cm = OneU then Inr PyNone else get_unit demo_env ?cm) = Inr ?cm"
    by (simp_all add: demo_simps)
  have n: "np_array demo_env ?v (Some (dtype ?q)) False (order ?q) (subok ?q) 0 = Inr ?v"
    by (simp add: demo_simps)
  have i: "convert_to demo_env (PyStr ''centimeter'') True ?q =
     (Inr None,
      (quantity_1d [1000] (Sym (Unit ''centimeter'')) (DimName ''length''))
        \<lparr>name := Some ''d'', buffer := \<lparr>nd_dtype = Ddouble, nd_data = Ar [Sc 10]\<rparr>\<rparr>)"
    by (simp add: convert_to_def converted_def same_dimension_def scale_factor_def scale_def
        set_attributes_def isinstance_One_def dimension_of_def Let_def demo_Units_def
        demo_simps)
  have r: "convert_to demo_env (PyStr ''parsec'') True ?q = (Inl UnitError, ?q)"
    by (simp add: convert_to_def demo_simps)
  from convert_to_frame [of demo_env "PyStr ''centimeter''" ?q] g c s(1) n have f:
    "\<exists>r. convert_to demo_env (PyStr ''centimeter'') False ?q = (Inr (Some r), ?q)
        \<and> unit r = ?cm \<and> value' r = atleast_1d ?v \<and> name r = name ?q"
    by blast
  from convert_to_frame [of demo_env "PyStr ''centimeter''" ?q] g c s(2) have
    "\<exists>q'. convert_to demo_env (PyStr ''centimeter'') True ?q = (Inr None, q')
        \<and> unit q' = ?cm
        \<and> dimension q' =
            (case dimension_of demo_env ?cm of Some d \<Rightarrow> DimName d | None \<Rightarrow> DimNone)
        \<and> value' q' = ?v \<and> constant' q' = False
        \<and> name q' = name ?q \<and> copy q' = copy ?q \<and> order q' = order ?q
        \<and> subok q' = subok ?q \<and> ndmin q' = ndmin ?q"
    by blast
  with f show ?thesis
    using i r by (simp add: dimension_of_def demo_simps)
qed

subsection \<open>The round trip of a conversion\<close>

text \<open>
  \<^verbatim>\<open>__new__\<close> converts to double only when \<^verbatim>\<open>x.dtype == int\<close>: an array of another
  integer dtype keeps it.
\<close>

lemma new_keeps_other_integer_dtype:
  assumes "np_array E v t c ord s m = Inr x" and "nd_dtype x = Dint16"
    and "new E v u t c ord s m n k = Inr q"
  shows "dtype q = Dint16"
  using assms
  by (auto simp: new_def Let_def atleast_1d_def split: if_splits sum.splits)

text \<open>
  C4. The docstring of \<^verbatim>\<open>__new__\<close> says that an input that cannot represent float (integer
  and bool) is converted to float, and then a conversion and its way back rescale doubles.
  A Quantity of an integer dtype other than the default one keeps that dtype, and
  \<^verbatim>\<open>__create_new_instance\<close> casts the converted values to it: one centimeter as a 16-bit
  integer converts to zero meter, and back to zero centimeter.
\<close>

theorem round_trip_integer_dtype:
  "new demo_env \<lparr>nd_dtype = Dint16, nd_data = Ar [Sc 1]\<rparr> (PyStr ''centimeter'') None True
       None False 0 None False =
     Inr ((quantity_1d [1] (Sym (Unit ''centimeter'')) (DimName ''length''))
            \<lparr>value' := \<lparr>nd_dtype = Dint16, nd_data = Ar [Sc 1]\<rparr>, dtype := Dint16,
             buffer := \<lparr>nd_dtype = Dint16, nd_data = Ar [Sc 1]\<rparr>\<rparr>)
   \<and> convert_to demo_env (PyStr ''meter'') False
       ((quantity_1d [1] (Sym (Unit ''centimeter'')) (DimName ''length''))
          \<lparr>value' := \<lparr>nd_dtype = Dint16, nd_data = Ar [Sc 1]\<rparr>, dtype := Dint16,
             buffer := \<lparr>nd_dtype = Dint16, nd_data = Ar [Sc 1]\<rparr>\<rparr>) =
     (Inr (Some
        ((quantity_1d [0] (Sym (Unit ''meter'')) (DimName ''length''))
           \<lparr>value' := \<lparr>nd_dtype = Dint16, nd_data = Ar [Sc 0]\<rparr>, dtype := Dint16,
             quantity := None,
             buffer := \<lparr>nd_dtype = Dint16, nd_data = Ar [Sc 0]\<rparr>\<rparr>)),
      (quantity_1d [1] (Sym (Unit ''centimeter'')) (DimName ''length''))
        \<lparr>value' := \<lparr>nd_dtype = Dint16, nd_data = Ar [Sc 1]\<rparr>, dtype := Dint16,
             buffer := \<lparr>nd_dtype = Dint16, nd_data = Ar [Sc 1]\<rparr>\<rparr>)
   \<and> convert_to demo_env (Sym (Unit ''centimeter'')) False
       ((quantity_1d [0] (Sym (Unit ''meter'')) (DimName ''length''))
          \<lparr>value' := \<lparr>nd_dtype = Dint16, nd_data = Ar [Sc 0]\<rparr>, dtype := Dint16,
            quantity := None,
             buffer := \<lparr>nd_dtype = Dint16, nd_data = Ar [Sc 0]\<rparr>\<rparr>) =
     (Inr (Some
        ((quantity_1d [0] (Sym (Unit ''centimeter'')) (DimName ''length''))
           \<lparr>value' := \<lparr>nd_dtype = Dint16, nd_data = Ar [Sc 0]\<rparr>, dtype := Dint16,
             quantity := None,
             buffer := \<lparr>nd_dtype = Dint16, nd_data = Ar [Sc 0]\<rparr>\<rparr>)),
      (quantity_1d [0] (Sym (Unit ''meter'')) (DimName ''length''))
        \<lparr>value' := \<lparr>nd_dtype = Dint16, nd_data = Ar [Sc 0]\<rparr>, dtype := Dint16,
          quantity := None,
             buffer := \<lparr>nd_dtype = Dint16, nd_data = Ar [Sc 0]\<rparr>\<rparr>)"
  by (simp add: new_def convert_to_def converted_def same_dimension_def scale_factor_def
        scale_def create_new_instance_def set_attributes_def isinstance_One_def view_def
        set_name_def dimension_of_def toward_zero_def wrap_def Let_def demo_Units_def demo_simps)

subsection \<open>Iteration\<close>

lemma shape_Nil: "shape d = [] \<Longrightarrow> \<exists>y. d = Sc y"
  by (cases d rule: shape.cases) auto

lemma one_element:
  "shape d = [] \<Longrightarrow> length (leaves (atleast_1d_nd d)) = 1"
  by (auto dest: shape_Nil)

text \<open>The Quantity that one \<^verbatim>\<open>next\<close> yields for the item \<open>x\<close> of the parent \<open>q\<close>.\<close>

lemma resume_item:
  assumes "np_array E \<lparr>nd_dtype = nd_dtype (value' q), nd_data = x\<rparr> (Some (dtype q)) False
             (order q) (subok q) 0 = Inr y"
    and "(if u = PyNone \<or> u = PyInt 1 \<or> u = OneU then Inr PyNone else get_unit E u) = Inr U"
  shows "resume E q u n (x # xs) =
           (Inr (Some
              \<lparr>unit = U,
               dimension = (case dimension_of E U of Some d \<Rightarrow> DimName d | None \<Rightarrow> DimNone),
               value' = atleast_1d y, dtype = dtype q,
               name = n, constant' = constant' q, copy = copy q, order = order q,
               subok = subok q, ndmin = ndmin q, quantity = None, buffer = atleast_1d y\<rparr>),
            Running q u n xs)"
  using create_new_instance_fields
          [where E = E and v = "\<lparr>nd_dtype = nd_dtype (value' q), nd_data = x\<rparr>" and t = None
             and self = q and x = y and u = u and U = U and n = n]
        assms
  by simp

lemma pull_Running:
  assumes "\<forall>x\<in>set xs. np_array E \<lparr>nd_dtype = nd_dtype (value' q), nd_data = x\<rparr>
             (Some (dtype q)) False (order q) (subok q) 0 = Inr (g x)"
    and "(if u = PyNone \<or> u = PyInt 1 \<or> u = OneU then Inr PyNone else get_unit E u) = Inr U"
    and "item = (\<lambda>x.
              \<lparr>unit = U,
               dimension = (case dimension_of E U of Some d \<Rightarrow> DimName d | None \<Rightarrow> DimNone),
               value' = atleast_1d (g x), dtype = dtype q,
               name = n, constant' = constant' q, copy = copy q, order = order q,
               subok = subok q, ndmin = ndmin q, quantity = None,
               buffer = atleast_1d (g x)\<rparr>)"
    and "k \<le> length xs"
  shows "pull E k (Running q u n xs) = (Inr (map item (take k xs)), Running q u n (drop k xs))"
  using assms(1,4)
proof (induction k arbitrary: xs)
  case 0
  then show ?case by simp
next
  case (Suc k)
  then obtain y ys where xs: "xs = y # ys" by (cases xs) auto
  with Suc.prems have k: "k \<le> length ys" by simp
  from Suc.prems(1) xs have
    y: "np_array E \<lparr>nd_dtype = nd_dtype (value' q), nd_data = y\<rparr> (Some (dtype q)) False
          (order q) (subok q) 0 = Inr (g y)"
    and ys: "\<forall>x\<in>set ys. np_array E \<lparr>nd_dtype = nd_dtype (value' q), nd_data = x\<rparr>
          (Some (dtype q)) False (order q) (subok q) 0 = Inr (g x)"
    by simp_all
  from Suc.IH [OF ys k] resume_item [OF y assms(2), of n ys] xs show ?case
    by (simp add: assms(3))
qed

lemma pull_Running_all:
  assumes "\<forall>x\<in>set xs. np_array E \<lparr>nd_dtype = nd_dtype (value' q), nd_data = x\<rparr>
             (Some (dtype q)) False (order q) (subok q) 0 = Inr (g x)"
    and "(if u = PyNone \<or> u = PyInt 1 \<or> u = OneU then Inr PyNone else get_unit E u) = Inr U"
    and "item = (\<lambda>x.
              \<lparr>unit = U,
               dimension = (case dimension_of E U of Some d \<Rightarrow> DimName d | None \<Rightarrow> DimNone),
               value' = atleast_1d (g x), dtype = dtype q,
               name = n, constant' = constant' q, copy = copy q, order = order q,
               subok = subok q, ndmin = ndmin q, quantity = None,
               buffer = atleast_1d (g x)\<rparr>)"
  shows "pull E (Suc (length xs)) (Running q u n xs) = (Inr (map item xs), Finished)"
  using assms(1)
proof (induction xs)
  case Nil
  then show ?case by simp
next
  case (Cons y ys)
  then have
    y: "np_array E \<lparr>nd_dtype = nd_dtype (value' q), nd_data = y\<rparr> (Some (dtype q)) False
          (order q) (subok q) 0 = Inr (g y)"
    and ys: "\<forall>x\<in>set ys. np_array E \<lparr>nd_dtype = nd_dtype (value' q), nd_data = x\<rparr>
          (Some (dtype q)) False (order q) (subok q) 0 = Inr (g x)"
    by simp_all
  from Cons.IH [OF ys] resume_item [OF y assms(2), of n ys] show ?case
    by (simp add: assms(3))
qed

text \<open>A parent with the unit \<^verbatim>\<open>One\<close> or \<^verbatim>\<open>1\<close> does not hand it on.\<close>

lemma resume_unit_One:
  assumes "u = OneU \<or> u = PyInt 1" and "resume E q u n (x # xs) = (Inr (Some r), g)"
  shows "unit r = PyNone"
  using assms
  by (auto simp: create_new_instance_def set_attributes_def set_name_def isinstance_One_def
        Let_def split: sum.splits if_splits)

text \<open>
  C9 as stated fails on arrays of more than one dimension: the items along the first axis
  of a two by two array are its two rows, and each Quantity yielded holds two elements.
  It fails on a Quantity with the unit \<^verbatim>\<open>One\<close> as well, \<^verbatim>\<open>Quantity(5, One)\<close> where
  \<^verbatim>\<open>get_unit\<close> returns \<^verbatim>\<open>One\<close> as it is: the Quantity yielded has the unit \<^verbatim>\<open>None\<close>.
\<close>

theorem iteration_rows_counterexample:
  "Quantity_of demo_env (py_list [Ar [Sc 1, Sc 2], Ar [Sc 3, Sc 4]]) PyNone =
     Inr ((quantity_1d [] ZeroU DimZero)
            \<lparr>value' := \<lparr>nd_dtype = Ddouble, nd_data = Ar [Ar [Sc 1, Sc 2], Ar [Sc 3, Sc 4]]\<rparr>,
              buffer := \<lparr>nd_dtype = Ddouble, nd_data = Ar [Ar [Sc 1, Sc 2], Ar [Sc 3, Sc 4]]\<rparr>\<rparr>)
   \<and> len (Ar [Ar [Sc 1, Sc 2], Ar [Sc 3, Sc 4]]) = Inr 2
   \<and> pull demo_env 3
       (iter ((quantity_1d [] ZeroU DimZero)
            \<lparr>value' := \<lparr>nd_dtype = Ddouble, nd_data = Ar [Ar [Sc 1, Sc 2], Ar [Sc 3, Sc 4]]\<rparr>,
              buffer := \<lparr>nd_dtype = Ddouble, nd_data = Ar [Ar [Sc 1, Sc 2], Ar [Sc 3, Sc 4]]\<rparr>\<rparr>)) =
     (Inr [(quantity_1d [1, 2] ZeroU DimNone)\<lparr>quantity := None\<rparr>,
           (quantity_1d [3, 4] ZeroU DimNone)\<lparr>quantity := None\<rparr>],
      Finished)
   \<and> length (leaves (nd_data (value' ((quantity_1d [1, 2] ZeroU DimNone)\<lparr>quantity := None\<rparr>)))) = 2
   \<and> Quantity_of demo_env (py_int 5) OneU = Inr (quantity_1d [5] OneU DimZero)
   \<and> pull demo_env 2 (iter (quantity_1d [5] OneU DimZero)) =
     (Inr [(quantity_1d [5] PyNone DimNone)\<lparr>quantity := None\<rparr>], Finished)
   \<and> unit ((quantity_1d [5] PyNone DimNone)\<lparr>quantity := None\<rparr>)
       \<noteq> unit (quantity_1d [5] OneU DimZero)"
  by (simp add: Quantity_of_def new_def numeral_3_eq_3 numeral_2_eq_2 iter_def
        create_new_instance_def
        set_attributes_def isinstance_One_def view_def set_name_def dimension_of_def Let_def
        demo_simps)

text \<open>
  C9, amended. For a Quantity with \<open>N\<close> items along its first axis, each of which numpy
  accepts in its shape, and a unit that is \<^verbatim>\<open>None\<close> or one that \<^verbatim>\<open>get_unit\<close> returns
  unchanged, other than \<^verbatim>\<open>One\<close> and \<^verbatim>\<open>1\<close>: the generator yields exactly \<open>N\<close> Quantities in
  index order and then stops; the \<open>i\<close>-th is made of the \<open>i\<close>-th item, has a single element
  when that item is a number, and carries the parent's unit and name. It is lazy: \<open>k\<close>
  calls of \<^verbatim>\<open>next\<close> wrap the first \<open>k\<close> items and leave the others in the generator. No
  step assigns to the Quantity, so every call of \<^verbatim>\<open>__iter__\<close> starts the same sequence
  again.
\<close>

theorem iteration_yields_items:
  assumes "nd_data (value' q) = Ar xs"
    and "\<forall>x\<in>set xs. np_array E \<lparr>nd_dtype = nd_dtype (value' q), nd_data = x\<rparr>
           (Some (dtype q)) False (order q) (subok q) 0 = Inr (g x)
           \<and> shape (nd_data (g x)) = shape x"
    and "unit q = PyNone
         \<or> (unit q \<noteq> OneU \<and> unit q \<noteq> PyInt 1 \<and> get_unit E (unit q) = Inr (unit q))"
  shows "\<exists>qs. pull E (Suc (length xs)) (iter q) = (Inr qs, Finished)
           \<and> length qs = length xs
           \<and> (\<forall>i < length xs.
                 unit (qs ! i) = unit q \<and> name (qs ! i) = name q
                 \<and> value' (qs ! i) = atleast_1d (g (xs ! i))
                 \<and> (\<forall>x. xs ! i = Sc x \<longrightarrow> length (leaves (nd_data (value' (qs ! i)))) = 1))
           \<and> (\<forall>k. 0 < k \<and> k \<le> length xs \<longrightarrow>
                 pull E k (iter q) =
                   (Inr (take k qs), Running q (unit q) (name q) (drop k xs)))"
proof -
  define item where "item = (\<lambda>x.
              \<lparr>unit = unit q,
               dimension = (case dimension_of E (unit q) of Some d \<Rightarrow> DimName d | None \<Rightarrow> DimNone),
               value' = atleast_1d (g x), dtype = dtype q,
               name = name q, constant' = constant' q, copy = copy q, order = order q,
               subok = subok q, ndmin = ndmin q, quantity = None,
               buffer = atleast_1d (g x)\<rparr>)"
  have np: "\<forall>x\<in>set xs. np_array E \<lparr>nd_dtype = nd_dtype (value' q), nd_data = x\<rparr>
           (Some (dtype q)) False (order q) (subok q) 0 = Inr (g x)"
    using assms(2) by blast
  have st: "(if unit q = PyNone \<or> unit q = PyInt 1 \<or> unit q = OneU then Inr PyNone
             else get_unit E (unit q)) = Inr (unit q)"
    using assms(3) by auto
  have start: "pull E (Suc k) (iter q) = pull E (Suc k) (Running q (unit q) (name q) xs)" for k
    using assms(1) by (simp add: iter_def)
  have 1: "pull E (Suc (length xs)) (iter q) = (Inr (map item xs), Finished)"
    using start pull_Running_all [OF np st item_def] by simp
  have 2: "pull E k (iter q) =
             (Inr (take k (map item xs)), Running q (unit q) (name q) (drop k xs))"
    if "0 < k \<and> k \<le> length xs" for k
  proof -
    from that obtain j where "k = Suc j" by (cases k) auto
    with start [of j] pull_Running [OF np st item_def, of k] that show ?thesis
      by (simp add: take_map)
  qed
  have 3: "unit (map item xs ! i) = unit q \<and> name (map item xs ! i) = name q
           \<and> value' (map item xs ! i) = atleast_1d (g (xs ! i))
           \<and> (\<forall>x. xs ! i = Sc x \<longrightarrow> length (leaves (nd_data (value' (map item xs ! i)))) = 1)"
    if "i < length xs" for i
  proof -
    from that have "xs ! i \<in> set xs" by simp
    with assms(2) have "shape (nd_data (g (xs ! i))) = shape (xs ! i)" by blast
    then have "xs ! i = Sc x \<Longrightarrow> length (leaves (atleast_1d_nd (nd_data (g (xs ! i))))) = 1" for x
      using one_element [of "nd_data (g (xs ! i))"] by simp
    with that show ?thesis by (simp add: item_def atleast_1d_def)
  qed
  from 1 2 3 show ?thesis by (intro exI [of _ "map item xs"]) simp
qed

theorem iteration_yields_items_witness:
  "pull demo_env 3 (iter (quantity_1d [10, 20] (Sym (Unit ''meter'')) (DimName ''length''))) =
     (Inr [(quantity_1d [10] (Sym (Unit ''meter'')) (DimName ''length''))\<lparr>quantity := None\<rparr>,
           (quantity_1d [20] (Sym (Unit ''meter'')) (DimName ''length''))\<lparr>quantity := None\<rparr>],
      Finished)
   \<and> pull demo_env 1 (iter (quantity_1d [10, 20] (Sym (Unit ''meter'')) (DimName ''length''))) =
     (Inr [(quantity_1d [10] (Sym (Unit ''meter'')) (DimName ''length''))\<lparr>quantity := None\<rparr>],
      Running (quantity_1d [10, 20] (Sym (Unit ''meter'')) (DimName ''length''))
        (Sym (Unit ''meter'')) (Some []) [Sc 20])
   \<and> (\<exists>qs. pull demo_env 3
               (iter (quantity_1d [10, 20] (Sym (Unit ''meter'')) (DimName ''length''))) =
             (Inr qs, Finished)
          \<and> length qs = 2
          \<and> unit (qs ! 1) = Sym (Unit ''meter'') \<and> name (qs ! 1) = Some []
          \<and> value' (qs ! 1) = \<lparr>nd_dtype = Ddouble, nd_data = Ar [Sc 20]\<rparr>
          \<and> length (leaves (nd_data (value' (qs ! 1)))) = 1)"
proof -
  let ?q = "quantity_1d [10, 20] (Sym (Unit ''meter'')) (DimName ''length'')"
  let ?xs = "[Sc 10, Sc 20]"
  let ?g = "\<lambda>x. \<lparr>nd_dtype = Ddouble, nd_data = x\<rparr>"
  have h1: "nd_data (value' ?q) = Ar ?xs"
    by (simp add: quantity_1d_def)
  have h2: "\<forall>x\<in>set ?xs. np_array demo_env \<lparr>nd_dtype = nd_dtype (value' ?q), nd_data = x\<rparr>
           (Some (dtype ?q)) False (order ?q) (subok ?q) 0 = Inr (?g x)
           \<and> shape (nd_data (?g x)) = shape x"
    by (simp add: demo_simps)
  have h3: "unit ?q = PyNone
         \<or> (unit ?q \<noteq> OneU \<and> unit ?q \<noteq> PyInt 1 \<and> get_unit demo_env (unit ?q) = Inr (unit ?q))"
    by (simp add: demo_simps)
  from iteration_yields_items [of ?q ?xs demo_env ?g, OF h1 h2 h3]
  obtain qs where qs: "pull demo_env (Suc (length ?xs)) (iter ?q) = (Inr qs, Finished)"
    "length qs = length ?xs"
    "\<forall>i < length ?xs.
        unit (qs ! i) = unit ?q \<and> name (qs ! i) = name ?q
        \<and> value' (qs ! i) = atleast_1d (?g (?xs ! i))
        \<and> (\<forall>x. ?xs ! i = Sc x \<longrightarrow> length (leaves (nd_data (value' (qs ! i)))) = 1)"
    by blast
  have "(1::nat) < length ?xs" by simp
  with qs(3) have
    "unit (qs ! 1) = unit ?q \<and> name (qs ! 1) = name ?q
        \<and> value' (qs ! 1) = atleast_1d (?g (?xs ! 1))
        \<and> (\<forall>x. ?xs ! 1 = Sc x \<longrightarrow> length (leaves (nd_data (value' (qs ! 1)))) = 1)"
    by blast
  then have i: "unit (qs ! 1) = Sym (Unit ''meter'') \<and> name (qs ! 1) = Some []
        \<and> value' (qs ! 1) = \<lparr>nd_dtype = Ddouble, nd_data = Ar [Sc 20]\<rparr>
        \<and> length (leaves (nd_data (value' (qs ! 1)))) = 1"
    by (simp add: quantity_1d_def atleast_1d_def)
  have e: "pull demo_env 3 (iter ?q) =
     (Inr [(quantity_1d [10] (Sym (Unit ''meter'')) (DimName ''length''))\<lparr>quantity := None\<rparr>,
           (quantity_1d [20] (Sym (Unit ''meter'')) (DimName ''length''))\<lparr>quantity := None\<rparr>],
      Finished)
   \<and> pull demo_env 1 (iter ?q) =
     (Inr [(quantity_1d [10] (Sym (Unit ''meter'')) (DimName ''length''))\<lparr>quantity := None\<rparr>],
      Running ?q (Sym (Unit ''meter'')) (Some []) [Sc 20])"
    by (simp add: numeral_3_eq_3 iter_def create_new_instance_def set_attributes_def
          isinstance_One_def view_def set_name_def dimension_of_def Let_def demo_simps)
  from qs(1,2) have "pull demo_env 3 (iter ?q) = (Inr qs, Finished) \<and> length qs = 2"
    by (simp add: numeral_3_eq_3)
  with i e show ?thesis by blast
qed

end
